theory Spec2Isabelle
  imports Complex_Main
begin

section \<open>JavaScript numbers\<close>

text \<open>
  The components of \<^verbatim>\<open>dateToUnixTime\<close> have the TypeScript type \<^verbatim>\<open>number\<close>.
  A finite number is modelled by the rational it denotes (every double is one; the two
  zeros are identified), next to \<^verbatim>\<open>NaN\<close> and the two infinities. The order
  comparisons are exact on doubles; \<^verbatim>\<open>a < b\<close> is false as soon as one side is
  \<^verbatim>\<open>NaN\<close>, and \<^verbatim>\<open>a > b\<close> is \<^verbatim>\<open>b < a\<close>.
\<close>

datatype number = Num rat | NaN | PosInf | NegInf

fun jsLt :: "number \<Rightarrow> number \<Rightarrow> bool" where
  "jsLt (Num a) (Num b) = (a < b)"
| "jsLt NaN _ = False"
| "jsLt _ NaN = False"
| "jsLt PosInf _ = False"
| "jsLt _ NegInf = False"
| "jsLt _ PosInf = True"
| "jsLt NegInf _ = True"

definition jsGt :: "number \<Rightarrow> number \<Rightarrow> bool" where
  "jsGt a b = jsLt b a"

fun jsNeg :: "number \<Rightarrow> number" where
  "jsNeg (Num a) = Num (- a)"
| "jsNeg NaN = NaN"
| "jsNeg PosInf = NegInf"
| "jsNeg NegInf = PosInf"

text \<open>
  Addition and subtraction. The operands met below are time values, integers of
  magnitude at most \<open>8.64 * 10^15\<close>, or \<^verbatim>\<open>NaN\<close>; the sum is taken exactly.
\<close>

fun jsAdd :: "number \<Rightarrow> number \<Rightarrow> number" where
  "jsAdd (Num a) (Num b) = Num (a + b)"
| "jsAdd NaN _ = NaN"
| "jsAdd _ NaN = NaN"
| "jsAdd PosInf NegInf = NaN"
| "jsAdd NegInf PosInf = NaN"
| "jsAdd PosInf _ = PosInf"
| "jsAdd _ PosInf = PosInf"
| "jsAdd NegInf _ = NegInf"
| "jsAdd _ NegInf = NegInf"

definition jsSub :: "number \<Rightarrow> number \<Rightarrow> number" where
  "jsSub a b = jsAdd a (jsNeg b)"

text \<open>\<^verbatim>\<open>x * 1000\<close> and \<^verbatim>\<open>Math.floor(x / 1000)\<close>, the two scalings of the source.\<close>

fun times1000 :: "number \<Rightarrow> number" where
  "times1000 (Num a) = Num (a * 1000)"
| "times1000 x = x"

fun floorDiv1000 :: "number \<Rightarrow> number" where
  "floorDiv1000 (Num a) = Num (of_int \<lfloor>a / 1000\<rfloor>)"
| "floorDiv1000 x = x"

definition isNaN :: "number \<Rightarrow> bool" where
  "isNaN x = (x = NaN)"

text \<open>ECMA-262 \<^verbatim>\<open>ToIntegerOrInfinity\<close> on a finite number: truncation towards zero.\<close>

definition toInteger :: "rat \<Rightarrow> int" where
  "toInteger r = (if r < 0 then \<lceil>r\<rceil> else \<lfloor>r\<rfloor>)"

definition isIntegral :: "rat \<Rightarrow> bool" where
  "isIntegral r = (of_int \<lfloor>r\<rfloor> = r)"

section \<open>Strings\<close>

text \<open>
  The ten decimal digits; \<open>digitChar\<close> is only applied to numbers below 10.
\<close>

definition decimalDigits :: string where
  "decimalDigits = ''0123456789''"

definition digitChar :: "nat \<Rightarrow> char" where
  "digitChar n = decimalDigits ! n"

definition digitVal :: "char \<Rightarrow> nat option" where
  "digitVal c = map_of (zip decimalDigits [0, 1, 2, 3, 4, 5, 6, 7, 8, 9]) c"

text \<open>The regular expression class \<^verbatim>\<open>\d\<close>: one of the ten ASCII digits.\<close>

definition isDigit :: "char \<Rightarrow> bool" where
  "isDigit c = (digitVal c \<noteq> None)"

fun showNat :: "nat \<Rightarrow> string" where
  "showNat n = (if n < 10 then [digitChar n]
                else showNat (n div 10) @ [digitChar (n mod 10)])"

declare showNat.simps [simp del]

definition showInt :: "int \<Rightarrow> string" where
  "showInt i = (if i < 0 then CHR ''-'' # showNat (nat (- i)) else showNat (nat i))"

text \<open>\<^verbatim>\<open>String.prototype.padStart(n, c)\<close> with a one-character filler.\<close>

definition padStart :: "nat \<Rightarrow> char \<Rightarrow> string \<Rightarrow> string" where
  "padStart n c s = replicate (n - length s) c @ s"

text \<open>The value of a string of decimal digits, most significant first.\<close>

fun digitsVal :: "nat \<Rightarrow> string \<Rightarrow> nat" where
  "digitsVal acc [] = acc"
| "digitsVal acc (c # cs) = digitsVal (10 * acc + (case digitVal c of Some d \<Rightarrow> d | None \<Rightarrow> 0)) cs"

section \<open>The calendar of ECMA-262\<close>

text \<open>
  Day numbers count from 1 January 1970; months are numbered from 0 as in
  \<^verbatim>\<open>Date.UTC\<close>. \<open>DayFromYear\<close>, \<open>MakeDay\<close>, \<open>MakeTime\<close>, \<open>MakeDate\<close> and
  \<open>TimeClip\<close> are the abstract operations of ECMA-262, section 21.4.1.
\<close>

definition msPerSecond :: int where "msPerSecond = 1000"
definition msPerMinute :: int where "msPerMinute = 60000"
definition msPerHour :: int where "msPerHour = 3600000"
definition msPerDay :: int where "msPerDay = 86400000"

definition DayFromYear :: "int \<Rightarrow> int" where
  "DayFromYear y = 365 * (y - 1970) + (y - 1969) div 4 - (y - 1901) div 100 + (y - 1601) div 400"

definition InLeapYear :: "int \<Rightarrow> bool" where
  "InLeapYear y = (y mod 4 = 0 \<and> (y mod 100 \<noteq> 0 \<or> y mod 400 = 0))"

text \<open>Days of the year before month \<open>m\<close> (0 = January), from the table of \<^verbatim>\<open>MonthFromTime\<close>.\<close>

definition daysBeforeMonth :: "bool \<Rightarrow> int \<Rightarrow> int" where
  "daysBeforeMonth leap m =
     (if m \<le> 0 then 0 else if m = 1 then 31
      else (if leap then 1 else 0) +
        (if m = 2 then 59 else if m = 3 then 90 else if m = 4 then 120
         else if m = 5 then 151 else if m = 6 then 181 else if m = 7 then 212
         else if m = 8 then 243 else if m = 9 then 273 else if m = 10 then 304
         else 334))"

text \<open>Length of month \<open>m\<close> (1 = January) of year \<open>y\<close>.\<close>

definition daysInMonth :: "int \<Rightarrow> int \<Rightarrow> int" where
  "daysInMonth y m =
     (if m = 2 then (if InLeapYear y then 29 else 28)
      else if m = 4 \<or> m = 6 \<or> m = 9 \<or> m = 11 then 30 else 31)"

definition MakeDay :: "int \<Rightarrow> int \<Rightarrow> int \<Rightarrow> int" where
  "MakeDay year month date =
     (let ym = year + month div 12;
          mn = month mod 12
      in DayFromYear ym + daysBeforeMonth (InLeapYear ym) mn + date - 1)"

definition MakeTime :: "int \<Rightarrow> int \<Rightarrow> int \<Rightarrow> int \<Rightarrow> int" where
  "MakeTime hour minute sec ms = hour * msPerHour + minute * msPerMinute + sec * msPerSecond + ms"

definition MakeDate :: "int \<Rightarrow> int \<Rightarrow> int" where
  "MakeDate day time = day * msPerDay + time"

fun TimeClip :: "number \<Rightarrow> number" where
  "TimeClip (Num t) = (if \<bar>t\<bar> > 8640000000000000 then NaN else Num (of_int (toInteger t)))"
| "TimeClip _ = NaN"

text \<open>
  \<^verbatim>\<open>Date.UTC(year, month, day, hours, minutes, seconds)\<close>: every argument is truncated
  to an integer, a year from 0 to 99 stands for 1900 + year, and the result is
  \<^verbatim>\<open>NaN\<close> when an argument is not finite or the instant is out of range.
\<close>

definition MakeFullYear :: "int \<Rightarrow> int" where
  "MakeFullYear y = (if 0 \<le> y \<and> y \<le> 99 then 1900 + y else y)"

definition DateUTC :: "number \<Rightarrow> number \<Rightarrow> number \<Rightarrow> number \<Rightarrow> number \<Rightarrow> number \<Rightarrow> number" where
  "DateUTC year month date hours minutes seconds =
     (case (year, month, date, hours, minutes, seconds) of
        (Num y, Num m, Num dt, Num h, Num mi, Num s) \<Rightarrow>
          TimeClip (Num (of_int (MakeDate
            (MakeDay (MakeFullYear (toInteger y)) (toInteger m) (toInteger dt))
            (MakeTime (toInteger h) (toInteger mi) (toInteger s) 0))))
      | _ \<Rightarrow> NaN)"

text \<open>
  The civil date of a day number (\<^verbatim>\<open>YearFromTime\<close>, \<^verbatim>\<open>MonthFromTime\<close>,
  \<^verbatim>\<open>DateFromTime\<close>), computed through the cycles of 400, 100, 4 and 1 years that
  start on 1 March of year 0. The month is numbered from 1.
\<close>

definition civilFromDay :: "int \<Rightarrow> int \<times> int \<times> int" where
  "civilFromDay d =
     (let z = d + 719468;
          n400 = z div 146097; r400 = z mod 146097;
          n100 = min 3 (r400 div 36524); r100 = r400 - n100 * 36524;
          n4 = r100 div 1461; r4 = r100 mod 1461;
          n1 = min 3 (r4 div 365); doy = r4 - n1 * 365;
          y = 400 * n400 + 100 * n100 + 4 * n4 + n1;
          mp = (5 * doy + 2) div 153;
          dd = doy - (153 * mp + 2) div 5 + 1;
          m = (if mp < 10 then mp + 3 else mp - 9)
      in (if m \<le> 2 then y + 1 else y, m, dd))"

section \<open>The host\<close>

text \<open>
  The program runs on a JavaScript host. What ECMA-262 and ECMA-402 fix is defined in
  this theory; what they leave to the implementation is a field of the host:
  \<^item> \<open>dayOverflowRolls\<close>: whether \<^verbatim>\<open>Date.parse\<close> reads a day of month between the
    length of the month and 31 as a day of the following month (V8 does) or rejects the
    text;
  \<^item> \<open>otherParse\<close>: \<^verbatim>\<open>Date.parse\<close> on a text that is not a complete date-time of the
    Date Time String Format (the shorter forms of the format, which the program never
    composes, and implementation-specific formats);
  \<^item> \<open>otherNumberToString\<close>: the decimal text of a number that is not an integer below
    \<open>10^21\<close> in magnitude;
  \<^item> \<open>dateTimeFormatError\<close>: the message of the RangeError that
    \<^verbatim>\<open>new Intl.DateTimeFormat('en-US', {timeZone: tz})\<close> raises, \<open>None\<close> when the
    host knows the zone;
  \<^item> \<open>zoneParts\<close>: the (type, value) parts that \<^verbatim>\<open>formatToParts\<close> yields for a zone
    and an instant in milliseconds, under the options of \<^verbatim>\<open>handleIanaTimezone\<close>;
  \<^item> \<open>invalidTimeMessage\<close>: the message of the RangeError raised on an invalid Date.
\<close>

record host =
  dayOverflowRolls :: bool
  otherParse :: "string \<Rightarrow> number"
  otherNumberToString :: "rat \<Rightarrow> string"
  dateTimeFormatError :: "string \<Rightarrow> string option"
  zoneParts :: "string \<Rightarrow> int \<Rightarrow> (string \<times> string) list"
  invalidTimeMessage :: string

text \<open>\<^verbatim>\<open>String(x)\<close>, also the conversion inside a template literal.\<close>

fun ToString :: "host \<Rightarrow> number \<Rightarrow> string" where
  "ToString H (Num r) =
     (if isIntegral r \<and> \<bar>r\<bar> < 10 ^ 21 then showInt \<lfloor>r\<rfloor> else otherNumberToString H r)"
| "ToString H NaN = ''NaN''"
| "ToString H PosInf = ''Infinity''"
| "ToString H NegInf = ''-Infinity''"

subsection \<open>Date.parse on the Date Time String Format\<close>

text \<open>
  The fields of a text \<^verbatim>\<open>YYYY-MM-DDTHH:mm:ss\<close>, optionally \<^verbatim>\<open>.sss\<close>, then
  \<^verbatim>\<open>Z\<close> or \<^verbatim>\<open>+HH:mm\<close> or \<^verbatim>\<open>-HH:mm\<close>; the year may be expanded to a sign and six
  digits, \<^verbatim>\<open>-000000\<close> excepted.
\<close>

record isoText =
  isoYear :: int
  isoMonth :: int
  isoDay :: int
  isoHour :: int
  isoMinute :: int
  isoSecond :: int
  isoMillis :: int
  offSign :: int
  offHour :: int
  offMinute :: int

definition takeDigits :: "nat \<Rightarrow> string \<Rightarrow> (int \<times> string) option" where
  "takeDigits n s =
     (if n \<le> length s \<and> list_all isDigit (take n s)
      then Some (int (digitsVal 0 (take n s)), drop n s) else None)"

definition expect :: "char \<Rightarrow> string \<Rightarrow> string option" where
  "expect c s = (case s of [] \<Rightarrow> None | x # xs \<Rightarrow> if x = c then Some xs else None)"

definition isoYearPart :: "string \<Rightarrow> (int \<times> string) option" where
  "isoYearPart s =
     (case s of [] \<Rightarrow> None
      | c # cs \<Rightarrow>
          if c = CHR ''+'' then takeDigits 6 cs
          else if c = CHR ''-'' then
            (case takeDigits 6 cs of None \<Rightarrow> None
             | Some (v, rest) \<Rightarrow> if v = 0 then None else Some (- v, rest))
          else takeDigits 4 s)"

definition isoMillisPart :: "string \<Rightarrow> (int \<times> string) option" where
  "isoMillisPart s =
     (case s of [] \<Rightarrow> Some (0, s)
      | c # cs \<Rightarrow> if c = CHR ''.'' then takeDigits 3 cs else Some (0, s))"

definition isoOffsetPart :: "string \<Rightarrow> (int \<times> int \<times> int) option" where
  "isoOffsetPart s =
     (if s = ''Z'' then Some (1, 0, 0)
      else case s of [] \<Rightarrow> None
        | c # cs \<Rightarrow>
            if c = CHR ''+'' \<or> c = CHR ''-'' then
              (case takeDigits 2 cs of None \<Rightarrow> None
               | Some (hh, r1) \<Rightarrow>
                  (case expect CHR '':'' r1 of None \<Rightarrow> None
                   | Some r2 \<Rightarrow>
                      (case takeDigits 2 r2 of None \<Rightarrow> None
                       | Some (mm, r3) \<Rightarrow>
                           if r3 = [] then Some (if c = CHR ''-'' then - 1 else 1, hh, mm)
                           else None)))
            else None)"

definition isoTimePart :: "string \<Rightarrow> (int \<times> int \<times> int \<times> string) option" where
  "isoTimePart s =
     (case takeDigits 2 s of None \<Rightarrow> None
      | Some (hh, r1) \<Rightarrow>
     (case expect CHR '':'' r1 of None \<Rightarrow> None
      | Some r2 \<Rightarrow>
     (case takeDigits 2 r2 of None \<Rightarrow> None
      | Some (mi, r3) \<Rightarrow>
     (case expect CHR '':'' r3 of None \<Rightarrow> None
      | Some r4 \<Rightarrow>
     (case takeDigits 2 r4 of None \<Rightarrow> None
      | Some (ss, r5) \<Rightarrow> Some (hh, mi, ss, r5))))))"

definition isoDatePart :: "string \<Rightarrow> (int \<times> int \<times> int \<times> string) option" where
  "isoDatePart s =
     (case isoYearPart s of None \<Rightarrow> None
      | Some (y, r1) \<Rightarrow>
     (case expect CHR ''-'' r1 of None \<Rightarrow> None
      | Some r2 \<Rightarrow>
     (case takeDigits 2 r2 of None \<Rightarrow> None
      | Some (mo, r3) \<Rightarrow>
     (case expect CHR ''-'' r3 of None \<Rightarrow> None
      | Some r4 \<Rightarrow>
     (case takeDigits 2 r4 of None \<Rightarrow> None
      | Some (dd, r5) \<Rightarrow> Some (y, mo, dd, r5))))))"

definition isoFields :: "string \<Rightarrow> isoText option" where
  "isoFields s =
     (case isoDatePart s of None \<Rightarrow> None
      | Some (y, mo, dd, r1) \<Rightarrow>
     (case expect CHR ''T'' r1 of None \<Rightarrow> None
      | Some r2 \<Rightarrow>
     (case isoTimePart r2 of None \<Rightarrow> None
      | Some (hh, mi, ss, r3) \<Rightarrow>
     (case isoMillisPart r3 of None \<Rightarrow> None
      | Some (ms, r4) \<Rightarrow>
     (case isoOffsetPart r4 of None \<Rightarrow> None
      | Some (sg, oh, om) \<Rightarrow>
          Some \<lparr>isoYear = y, isoMonth = mo, isoDay = dd, isoHour = hh, isoMinute = mi,
                isoSecond = ss, isoMillis = ms, offSign = sg, offHour = oh, offMinute = om\<rparr>)))))"

text \<open>
  A field out of its bounds makes the time value \<^verbatim>\<open>NaN\<close>: month 01 to 12, day 01 to
  31, hour 00 to 24 (24 only as 24:00:00), minute and second 00 to 59, offset hour 00 to
  23 and offset minute 00 to 59. A day beyond the length of its month is the host's
  choice. Otherwise the instant is the UTC reading of the fields minus the offset.
\<close>

definition isoOutOfBounds :: "isoText \<Rightarrow> bool" where
  "isoOutOfBounds f =
     (isoMonth f < 1 \<or> 12 < isoMonth f \<or> isoDay f < 1 \<or> 31 < isoDay f \<or>
      24 < isoHour f \<or> 59 < isoMinute f \<or> 59 < isoSecond f \<or>
      (isoHour f = 24 \<and> (isoMinute f \<noteq> 0 \<or> isoSecond f \<noteq> 0 \<or> isoMillis f \<noteq> 0)) \<or>
      23 < offHour f \<or> 59 < offMinute f)"

definition isoTimeValue :: "bool \<Rightarrow> isoText \<Rightarrow> number" where
  "isoTimeValue rolls f =
     (if isoOutOfBounds f then NaN
      else if daysInMonth (isoYear f) (isoMonth f) < isoDay f \<and> \<not> rolls then NaN
      else TimeClip (Num (of_int
        (MakeDate (MakeDay (isoYear f) (isoMonth f - 1) (isoDay f))
                  (MakeTime (isoHour f) (isoMinute f) (isoSecond f) (isoMillis f))
         - offSign f * (offHour f * 60 + offMinute f) * msPerMinute))))"

text \<open>\<^verbatim>\<open>new Date(text).getTime()\<close>\<close>

definition DateParse :: "host \<Rightarrow> string \<Rightarrow> number" where
  "DateParse H s =
     (case isoFields s of
        Some f \<Rightarrow> isoTimeValue (dayOverflowRolls H) f
      | None \<Rightarrow> TimeClip (otherParse H s))"

subsection \<open>Intl.DateTimeFormat and parseInt\<close>

text \<open>
  \<^verbatim>\<open>formatToParts\<close> raises a RangeError on an invalid Date (ECMA-402) and otherwise
  yields the host's parts for the zone.
\<close>

fun formatToParts :: "host \<Rightarrow> string \<Rightarrow> number \<Rightarrow> string + (string \<times> string) list" where
  "formatToParts H tz (Num t) = Inr (zoneParts H tz \<lfloor>t\<rfloor>)"
| "formatToParts H tz _ = Inl (invalidTimeMessage H)"

definition isWhiteSpace :: "char \<Rightarrow> bool" where
  "isWhiteSpace c = (c = CHR '' '' \<or> c = CHR 0x09 \<or> c = CHR 0x0A \<or> c = CHR 0x0B \<or>
                     c = CHR 0x0C \<or> c = CHR 0x0D)"

text \<open>
  \<^verbatim>\<open>parseInt(text, 10)\<close>: leading white space, an optional sign, then the longest run
  of decimal digits; \<^verbatim>\<open>NaN\<close> when there is no digit.
\<close>

definition parseInt10 :: "string \<Rightarrow> number" where
  "parseInt10 s =
     (let t = dropWhile isWhiteSpace s;
          neg = (t \<noteq> [] \<and> hd t = CHR ''-'');
          u = (if t \<noteq> [] \<and> (hd t = CHR ''+'' \<or> hd t = CHR ''-'') then tl t else t);
          ds = takeWhile isDigit u
      in if ds = [] then NaN
         else Num (of_int ((if neg then - 1 else 1) * int (digitsVal 0 ds))))"

section \<open>The program\<close>

datatype errorKind =
  InvalidMonth | InvalidDay | InvalidHour | InvalidMinute | InvalidSecond
  | InvalidDate | InvalidTimezone | RangeError

type_synonym error = "errorKind \<times> string"

text \<open>The default value \<^verbatim>\<open>false\<close> of the optional parameter \<^verbatim>\<open>useMilliseconds\<close>.\<close>

definition orFalse :: "bool option \<Rightarrow> bool" where
  "orFalse b = (case b of None \<Rightarrow> False | Some v \<Rightarrow> v)"

definition isoString :: "host \<Rightarrow> number \<Rightarrow> number \<Rightarrow> number \<Rightarrow> number \<Rightarrow> number \<Rightarrow> number \<Rightarrow> string \<Rightarrow> string" where
  "isoString H y mo d h mi s tz =
     ToString H y @ ''-'' @ padStart 2 CHR ''0'' (ToString H mo) @ ''-'' @
     padStart 2 CHR ''0'' (ToString H d) @ ''T'' @ padStart 2 CHR ''0'' (ToString H h) @ '':'' @
     padStart 2 CHR ''0'' (ToString H mi) @ '':'' @ padStart 2 CHR ''0'' (ToString H s) @
     (if tz = ''Z'' then ''Z'' else tz)"

definition handleUtcOffset ::
  "host \<Rightarrow> number \<Rightarrow> number \<Rightarrow> number \<Rightarrow> number \<Rightarrow> number \<Rightarrow> number \<Rightarrow> string \<Rightarrow> bool option
     \<Rightarrow> error + number" where
  "handleUtcOffset H y mo d h mi s tz useMilliseconds =
     (let date = DateParse H (isoString H y mo d h mi s tz)
      in if isNaN date then Inl (InvalidDate, ''Invalid date: '' @ isoString H y mo d h mi s tz)
         else if orFalse useMilliseconds then Inr date
         else Inr (floorDiv1000 date))"

definition getPartValue :: "(string \<times> string) list \<Rightarrow> string \<Rightarrow> number" where
  "getPartValue parts ty =
     (case find (\<lambda>p. fst p = ty) parts of
        Some part \<Rightarrow> parseInt10 (snd part)
      | None \<Rightarrow> Num 0)"

definition timezoneMessage :: "string \<Rightarrow> string \<Rightarrow> string" where
  "timezoneMessage tz msg =
     ''Invalid timezone: '' @ tz @ ''. Use UTC offset format (e.g., '' @ [CHR 0x22] @ ''+05:30'' @
     [CHR 0x22] @ '') or valid IANA timezone name (e.g., '' @ [CHR 0x22] @ ''America/New_York'' @
     [CHR 0x22] @ ''). Error: '' @ msg"

definition handleIanaTimezone ::
  "host \<Rightarrow> number \<Rightarrow> number \<Rightarrow> number \<Rightarrow> number \<Rightarrow> number \<Rightarrow> number \<Rightarrow> string \<Rightarrow> bool option
     \<Rightarrow> error + number" where
  "handleIanaTimezone H y mo d h mi s tz useMilliseconds =
     (case dateTimeFormatError H tz of
        Some msg \<Rightarrow> Inl (InvalidTimezone, timezoneMessage tz msg)
      | None \<Rightarrow>
          let utcDate = TimeClip (DateUTC y (jsSub mo (Num 1)) d h mi s)
          in (case dateTimeFormatError H tz of
                Some msg \<Rightarrow> Inl (InvalidTimezone, timezoneMessage tz msg)
              | None \<Rightarrow>
                 (case formatToParts H tz utcDate of
                    Inl msg \<Rightarrow> Inl (InvalidTimezone, timezoneMessage tz msg)
                  | Inr parts \<Rightarrow>
                      let localDate = TimeClip (DateUTC
                            (getPartValue parts ''year'')
                            (jsSub (getPartValue parts ''month'') (Num 1))
                            (getPartValue parts ''day'')
                            (getPartValue parts ''hour'')
                            (getPartValue parts ''minute'')
                            (getPartValue parts ''second''));
                          offset = jsSub utcDate localDate;
                          correctDate = TimeClip (jsAdd utcDate offset)
                      in if orFalse useMilliseconds then Inr correctDate
                         else Inr (floorDiv1000 correctDate))))"

text \<open>The test \<^verbatim>\<open>/^[+-]\d{2}:\d{2}$/\<close> of a timezone text.\<close>

definition offsetPattern :: "string \<Rightarrow> bool" where
  "offsetPattern tz =
     (case tz of
        [sg, a, b, c, e, f] \<Rightarrow>
          (sg = CHR ''+'' \<or> sg = CHR ''-'') \<and> isDigit a \<and> isDigit b \<and> c = CHR '':'' \<and>
          isDigit e \<and> isDigit f
      | _ \<Rightarrow> False)"

definition dateToUnixTime ::
  "host \<Rightarrow> number \<Rightarrow> number \<Rightarrow> number \<Rightarrow> number \<Rightarrow> number \<Rightarrow> number \<Rightarrow> string \<Rightarrow> bool option
     \<Rightarrow> error + number" where
  "dateToUnixTime H y mo d h mi s tz useMilliseconds =
     (if jsLt mo (Num 1) \<or> jsGt mo (Num 12) then
        Inl (InvalidMonth, ''Invalid month: '' @ ToString H mo @ ''. Must be between 1-12'')
      else if jsLt d (Num 1) \<or> jsGt d (Num 31) then
        Inl (InvalidDay, ''Invalid day: '' @ ToString H d @ ''. Must be between 1-31'')
      else if jsLt h (Num 0) \<or> jsGt h (Num 23) then
        Inl (InvalidHour, ''Invalid hour: '' @ ToString H h @ ''. Must be between 0-23'')
      else if jsLt mi (Num 0) \<or> jsGt mi (Num 59) then
        Inl (InvalidMinute, ''Invalid minute: '' @ ToString H mi @ ''. Must be between 0-59'')
      else if jsLt s (Num 0) \<or> jsGt s (Num 59) then
        Inl (InvalidSecond, ''Invalid second: '' @ ToString H s @ ''. Must be between 0-59'')
      else if tz = ''Z'' \<or> offsetPattern tz then
        handleUtcOffset H y mo d h mi s tz useMilliseconds
      else handleIanaTimezone H y mo d h mi s tz useMilliseconds)"

record DateTimeInput =
  year :: number
  month :: number
  day :: number
  hour :: number
  minute :: number
  second :: number
  timezone :: string
  useMilliseconds :: "bool option"

definition dateToUnixTimeFromObject :: "host \<Rightarrow> DateTimeInput \<Rightarrow> error + number" where
  "dateToUnixTimeFromObject H input =
     dateToUnixTime H (year input) (month input) (day input) (hour input) (minute input)
       (second input) (timezone input) None"

subsection \<open>unixTimeToIso\<close>

text \<open>
  \<^verbatim>\<open>Date.prototype.toISOString\<close>: a RangeError on an invalid Date; otherwise the
  UTC fields, the year with four digits from 0 to 9999 and with a sign and six digits
  outside.
\<close>

definition isoYearText :: "int \<Rightarrow> string" where
  "isoYearText y =
     (if 0 \<le> y \<and> y \<le> 9999 then padStart 4 CHR ''0'' (showNat (nat y))
      else (if y < 0 then CHR ''-'' else CHR ''+'') # padStart 6 CHR ''0'' (showNat (nat \<bar>y\<bar>)))"

definition pad2 :: "int \<Rightarrow> string" where
  "pad2 n = padStart 2 CHR ''0'' (showNat (nat n))"

definition pad3 :: "int \<Rightarrow> string" where
  "pad3 n = padStart 3 CHR ''0'' (showNat (nat n))"

fun toISOString :: "host \<Rightarrow> number \<Rightarrow> error + string" where
  "toISOString H (Num r) =
     (let t = \<lfloor>r\<rfloor>;
          (y, m, dd) = civilFromDay (t div msPerDay);
          tm = t mod msPerDay
      in Inr (isoYearText y @ ''-'' @ pad2 m @ ''-'' @ pad2 dd @ ''T'' @
              pad2 (tm div msPerHour) @ '':'' @ pad2 (tm div msPerMinute mod 60) @ '':'' @
              pad2 (tm div msPerSecond mod 60) @ ''.'' @ pad3 (tm mod 1000) @ ''Z''))"
| "toISOString H _ = Inl (RangeError, invalidTimeMessage H)"

definition unixTimeToIso :: "host \<Rightarrow> number \<Rightarrow> error + string" where
  "unixTimeToIso H unixTime = toISOString H (TimeClip (times1000 unixTime))"

section \<open>A sample host\<close>

text \<open>
  A host to run the program on: V8's reading of a day beyond the end of the month, no
  other date format, three zones with their offsets during 2024 (New York on daylight
  time from 10 March 07:00 UTC to 3 November 06:00 UTC), and the parts of the
  \<^verbatim>\<open>en-US\<close> pattern \<^verbatim>\<open>MM/DD/YYYY, HH:mm:ss\<close>.
\<close>

definition sampleOffset :: "string \<Rightarrow> int \<Rightarrow> int" where
  "sampleOffset tz t =
     (if tz = ''Asia/Kolkata'' then 19800000
      else if tz = ''America/New_York'' then
        (if 1710054000000 \<le> t \<and> t < 1730613600000 then - 14400000 else - 18000000)
      else 0)"

definition sampleParts :: "string \<Rightarrow> int \<Rightarrow> (string \<times> string) list" where
  "sampleParts tz t =
     (let l = t + sampleOffset tz t;
          (y, m, dd) = civilFromDay (l div msPerDay);
          tm = l mod msPerDay
      in [(''month'', pad2 m), (''literal'', ''/''), (''day'', pad2 dd), (''literal'', ''/''),
          (''year'', showInt y), (''literal'', '', ''), (''hour'', pad2 (tm div msPerHour)),
          (''literal'', '':''), (''minute'', pad2 (tm div msPerMinute mod 60)),
          (''literal'', '':''), (''second'', pad2 (tm div msPerSecond mod 60))])"

definition sampleHost :: host where
  "sampleHost =
     \<lparr>dayOverflowRolls = True,
      otherParse = (\<lambda>s. NaN),
      otherNumberToString = (\<lambda>r. ''?''),
      dateTimeFormatError = (\<lambda>tz.
        if tz = ''UTC'' \<or> tz = ''Asia/Kolkata'' \<or> tz = ''America/New_York'' then None
        else Some (''Invalid time zone specified: '' @ tz)),
      zoneParts = sampleParts,
      invalidTimeMessage = ''Invalid time value''\<rparr>"

section \<open>Notions of the specification\<close>

text \<open>
  The offset, in minutes east of UTC, that a fixed-offset designator denotes:
  \<^verbatim>\<open>Z\<close> is 0, \<^verbatim>\<open>+HH:MM\<close> is 60 HH + MM and \<^verbatim>\<open>-HH:MM\<close> its negation.
\<close>

definition designatorOffset :: "string \<Rightarrow> int option" where
  "designatorOffset tz =
     (if tz = ''Z'' then Some 0
      else case tz of
        [sg, a, b, c, e, f] \<Rightarrow>
          (case (digitVal a, digitVal b, digitVal e, digitVal f) of
             (Some p, Some q, Some r, Some t) \<Rightarrow>
               if (sg = CHR ''+'' \<or> sg = CHR ''-'') \<and> c = CHR '':''
               then Some ((if sg = CHR ''-'' then - 1 else 1) * int (60 * (10 * p + q) + (10 * r + t)))
               else None
           | _ \<Rightarrow> None)
      | _ \<Rightarrow> None)"

text \<open>
  \<open>UTC(year, month, day, hour, minute, second)\<close> in milliseconds, the month numbered
  from 1, on the calendar of ECMA-262.
\<close>

definition utcMillis :: "int \<Rightarrow> int \<Rightarrow> int \<Rightarrow> int \<Rightarrow> int \<Rightarrow> int \<Rightarrow> int" where
  "utcMillis y mo d h mi s = MakeDate (MakeDay y (mo - 1) d) (MakeTime h mi s 0)"

text \<open>
  The years that a text of the Date Time String Format can carry when written without
  padding: four digits, or a minus sign and six digits.
\<close>

definition yearShape :: "int \<Rightarrow> bool" where
  "yearShape y = ((0 \<le> y \<and> length (showNat (nat y)) = 4) \<or>
                  (y < 0 \<and> length (showNat (nat (- y))) = 6))"

text \<open>
  A component that compares inside its range, or that fails every comparison
  (\<^verbatim>\<open>NaN\<close>).
\<close>

definition insideOrUnordered :: "number \<Rightarrow> rat \<Rightarrow> rat \<Rightarrow> bool" where
  "insideOrUnordered x lo hi = (case x of Num r \<Rightarrow> lo \<le> r \<and> r \<le> hi | NaN \<Rightarrow> True | _ \<Rightarrow> False)"


text \<open>A text of the form \<^verbatim>\<open>YYYY-MM-DDTHH:mm:ss.sssZ\<close>.\<close>

definition isoUtcText :: "string \<Rightarrow> bool" where
  "isoUtcText s =
     (case s of
        [y1, y2, y3, y4, c1, m1, m2, c2, d1, d2, c3, h1, h2, c4, n1, n2, c5, s1, s2, c6, f1, f2, f3, c7] \<Rightarrow>
          list_all isDigit [y1, y2, y3, y4, m1, m2, d1, d2, h1, h2, n1, n2, s1, s2, f1, f2, f3] \<and>
          [c1, c2, c3, c4, c5, c6, c7] = ''--T::.Z''
      | _ \<Rightarrow> False)"


section \<open>Auxiliary facts\<close>

lemmas calendar_defs =
  DayFromYear_def InLeapYear_def daysBeforeMonth_def daysInMonth_def MakeDay_def MakeTime_def
  MakeDate_def MakeFullYear_def msPerDay_def msPerHour_def msPerMinute_def msPerSecond_def
  toInteger_def utcMillis_def

lemmas text_defs =
  isIntegral_def showInt_def showNat.simps padStart_def digitChar_def digitVal_def isDigit_def
  decimalDigits_def
  pad2_def pad3_def isoYearText_def

lemmas parse_defs =
  DateParse_def isoFields_def isoDatePart_def isoYearPart_def takeDigits_def expect_def
  isoTimePart_def isoMillisPart_def isoOffsetPart_def isoTimeValue_def isoOutOfBounds_def

lemmas program_defs =
  dateToUnixTime_def jsGt_def jsSub_def handleUtcOffset_def handleIanaTimezone_def isoString_def
  offsetPattern_def isNaN_def orFalse_def getPartValue_def parseInt10_def isWhiteSpace_def
  DateUTC_def

lemmas sample_defs =
  sampleHost_def sampleParts_def sampleOffset_def civilFromDay_def

subsection \<open>Digits\<close>

lemma digitVal_digitChar: "n < 10 \<Longrightarrow> digitVal (digitChar n) = Some n"
proof -
  assume n: "n < 10"
  have u: "[0, 1, 2, 3, 4, 5, 6, 7, 8, 9] = [0 ..< 10]" by code_simp
  have "map_of (zip decimalDigits [0 ..< 10]) (decimalDigits ! n) = Some ([0 ..< 10] ! n)"
    using n by (intro map_of_zip_nth) (simp_all add: decimalDigits_def)
  then show ?thesis using n unfolding digitVal_def digitChar_def u by simp
qed

lemma isDigit_digitChar: "n < 10 \<Longrightarrow> isDigit (digitChar n)"
  by (simp add: isDigit_def digitVal_digitChar)

lemma showNat_digits: "list_all isDigit (showNat n)"
proof (induction n rule: showNat.induct)
  case (1 n)
  show ?case
  proof (cases "n < 10")
    case True
    then show ?thesis by (subst showNat.simps) (simp add: isDigit_digitChar)
  next
    case False
    with 1 show ?thesis by (subst showNat.simps) (simp add: isDigit_digitChar)
  qed
qed

lemma digitsVal_snoc:
  "digitsVal acc (xs @ [c]) = 10 * digitsVal acc xs + (case digitVal c of Some d \<Rightarrow> d | None \<Rightarrow> 0)"
  by (induction xs arbitrary: acc) simp_all

lemma digitsVal_showNat: "digitsVal 0 (showNat n) = n"
proof (induction n rule: showNat.induct)
  case (1 n)
  show ?case
  proof (cases "n < 10")
    case True
    then show ?thesis by (subst showNat.simps) (simp add: digitVal_digitChar)
  next
    case False
    then have "digitsVal 0 (showNat (n div 10)) = n div 10" using 1 by simp
    with False show ?thesis
      by (subst showNat.simps) (simp add: digitsVal_snoc digitVal_digitChar)
  qed
qed

lemma showNat_nonempty: "showNat n \<noteq> []"
  by (subst showNat.simps) simp

lemma showNat_small: "n < 10 \<Longrightarrow> showNat n = [digitChar n]"
  by (subst showNat.simps) simp

lemma showNat_two: "10 \<le> n \<Longrightarrow> n < 100 \<Longrightarrow> showNat n = [digitChar (n div 10), digitChar (n mod 10)]"
  by (subst showNat.simps) (simp add: showNat_small)

lemma pad2_text:
  "n < 100 \<Longrightarrow> padStart 2 CHR ''0'' (showNat n) = [digitChar (n div 10), digitChar (n mod 10)]"
proof (cases "n < 10")
  case True
  then show ?thesis by (simp add: padStart_def showNat_small digitChar_def decimalDigits_def)
next
  case False
  moreover assume "n < 100"
  ultimately show ?thesis by (simp add: padStart_def showNat_two)
qed

lemma takeDigits_two:
  "a < 10 \<Longrightarrow> b < 10 \<Longrightarrow>
   takeDigits 2 (digitChar a # digitChar b # rest) = Some (int (10 * a + b), rest)"
  by (simp add: takeDigits_def isDigit_digitChar digitVal_digitChar)

lemma ToString_int:
  "\<bar>n\<bar> < 10 ^ 21 \<Longrightarrow> ToString H (Num (of_int n)) = showInt n"
proof -
  assume "\<bar>n\<bar> < 10 ^ 21"
  then have "(of_int \<bar>n\<bar> :: rat) < of_int (10 ^ 21)" by (simp only: of_int_less_iff)
  then have "\<bar>rat_of_int n\<bar> < 10 ^ 21" by simp
  then show ?thesis by (simp add: isIntegral_def)
qed

lemma not_digit_dash: "\<not> isDigit CHR ''-''" "\<not> isDigit CHR ''+''" "\<not> isDigit CHR '':''"
  "\<not> isDigit CHR ''T''" "\<not> isDigit CHR ''Z''" "\<not> isDigit CHR ''.''"
  by (simp_all add: isDigit_def digitVal_def decimalDigits_def)

lemma list_all_take: "list_all P xs \<Longrightarrow> list_all P (take k xs)"
  by (induction xs arbitrary: k) (auto simp: take_Cons split: nat.splits)

lemma takeDigits_run:
  assumes "list_all isDigit ds" and "\<not> isDigit c"
  shows "takeDigits k (ds @ c # rest) =
         (if k \<le> length ds then Some (int (digitsVal 0 (take k ds)), drop k ds @ c # rest) else None)"
proof (cases "k \<le> length ds")
  case True
  then show ?thesis using assms by (simp add: takeDigits_def list_all_take)
next
  case False
  then have "k - length ds = Suc (k - length ds - 1)" by simp
  then have "take (k - length ds) (c # rest) = c # take (k - length ds - 1) rest"
    by (metis take_Suc_Cons)
  then show ?thesis using False assms by (simp add: takeDigits_def)
qed

lemma expect_after_digits:
  assumes "list_all isDigit ds"
  shows "expect CHR ''-'' (ds @ CHR ''-'' # rest) = (if ds = [] then Some rest else None)"
  using assms by (cases ds) (auto simp: expect_def not_digit_dash)

lemma digits_then_dash:
  assumes "list_all isDigit ds" 
  shows "(case takeDigits k (ds @ CHR ''-'' # rest) of None \<Rightarrow> None
           | Some (v, r1) \<Rightarrow> (case expect CHR ''-'' r1 of None \<Rightarrow> None | Some r2 \<Rightarrow> F v r2))
         = (if length ds = k then F (int (digitsVal 0 ds)) rest else None)"
proof -
  consider "k < length ds" | "k = length ds" | "length ds < k" by linarith
  then show ?thesis
  proof cases
    case 1
    then obtain x xs where x: "drop k ds = x # xs" by (cases "drop k ds") auto
    have "list_all isDigit (drop k ds)" using assms
      by (metis append_take_drop_id list_all_append)
    then have "x \<noteq> CHR ''-''" using x not_digit_dash by auto
    then show ?thesis using 1 x assms
      by (simp add: takeDigits_run not_digit_dash expect_def)
  next
    case 2
    then show ?thesis using assms
      by (simp add: takeDigits_run not_digit_dash expect_def)
  next
    case 3
    then show ?thesis using assms
      by (simp add: takeDigits_run not_digit_dash)
  qed
qed

lemma expect_Cons: "expect c (x # xs) = (if x = c then Some xs else None)"
  by (simp add: expect_def)

lemma pad2_int:
  assumes "0 \<le> n" "n \<le> 99"
  shows "padStart 2 CHR ''0'' (showInt n) = [digitChar (nat n div 10), digitChar (nat n mod 10)]"
  using assms by (simp add: showInt_def pad2_text)

lemma takeDigits_pad2:
  assumes "0 \<le> n" "n \<le> 99"
  shows "takeDigits 2 (padStart 2 CHR ''0'' (showInt n) @ rest) = Some (n, rest)"
proof -
  have "nat n div 10 < 10" "nat n mod 10 < 10" using assms by auto
  then have "takeDigits 2 (digitChar (nat n div 10) # digitChar (nat n mod 10) # rest)
             = Some (int (10 * (nat n div 10) + nat n mod 10), rest)"
    by (rule takeDigits_two)
  moreover have "int (10 * (nat n div 10) + nat n mod 10) = n" using assms by simp
  ultimately show ?thesis using assms by (simp add: pad2_int)
qed

lemma year_then_dash:
  "(case isoYearPart (showInt y @ CHR ''-'' # t) of None \<Rightarrow> None
     | Some (v, r1) \<Rightarrow> (case expect CHR ''-'' r1 of None \<Rightarrow> None | Some r2 \<Rightarrow> F v r2))
   = (if yearShape y then F y t else None)"
proof (cases "0 \<le> y")
  case True
  obtain c cs where cs: "showNat (nat y) = c # cs"
    using showNat_nonempty by (cases "showNat (nat y)") auto
  have dig: "list_all isDigit (showNat (nat y))" by (rule showNat_digits)
  then have "isDigit c" using cs by simp
  then have c: "c \<noteq> CHR ''+''" "c \<noteq> CHR ''-''" using not_digit_dash by auto
  have yr: "isoYearPart (showInt y @ CHR ''-'' # t) = takeDigits 4 (showNat (nat y) @ CHR ''-'' # t)"
    using True c cs by (simp add: isoYearPart_def showInt_def)
  show ?thesis
    unfolding yr digits_then_dash[OF dig] using True
    by (simp add: yearShape_def digitsVal_showNat)
next
  case False
  have dig: "list_all isDigit (showNat (nat (- y)))" by (rule showNat_digits)
  have pos: "int (digitsVal 0 (showNat (nat (- y)))) = - y" using False by (simp add: digitsVal_showNat)
  have yr: "isoYearPart (showInt y @ CHR ''-'' # t) =
     (case takeDigits 6 (showNat (nat (- y)) @ CHR ''-'' # t) of None \<Rightarrow> None
             | Some (v, rest) \<Rightarrow> if v = 0 then None else Some (- v, rest))"
    using False by (simp add: isoYearPart_def showInt_def)
  have run: "takeDigits 6 (showNat (nat (- y)) @ CHR ''-'' # t) =
         (if 6 \<le> length (showNat (nat (- y)))
          then Some (int (digitsVal 0 (take 6 (showNat (nat (- y))))), drop 6 (showNat (nat (- y))) @ CHR ''-'' # t)
          else None)"
    by (rule takeDigits_run[OF dig]) (simp add: not_digit_dash)
  consider "6 < length (showNat (nat (- y)))" | "6 = length (showNat (nat (- y)))"
    | "length (showNat (nat (- y))) < 6" by linarith
  then show ?thesis
  proof cases
    case 1
    then obtain x xs where x: "drop 6 (showNat (nat (- y))) = x # xs"
      by (cases "drop 6 (showNat (nat (- y)))") auto
    have "list_all isDigit (drop 6 (showNat (nat (- y))))" using dig
      by (metis append_take_drop_id list_all_append)
    then have "x \<noteq> CHR ''-''" using x not_digit_dash by auto
    then show ?thesis using 1 x False unfolding yr run
      by (simp add: yearShape_def expect_def)
  next
    case 2
    then show ?thesis using False pos unfolding yr run
      by (simp add: yearShape_def expect_def)
  next
    case 3
    then show ?thesis using False unfolding yr run
      by (simp add: yearShape_def)
  qed
qed

lemma isoDatePart_composed:
  assumes "0 \<le> mo" "mo \<le> 99" "0 \<le> d" "d \<le> 99"
  shows "isoDatePart (showInt y @ ''-'' @ padStart 2 CHR ''0'' (showInt mo) @ ''-'' @
                      padStart 2 CHR ''0'' (showInt d) @ rest)
         = (if yearShape y then Some (y, mo, d, rest) else None)"
  unfolding isoDatePart_def using assms
  by (simp add: year_then_dash takeDigits_pad2 expect_Cons)

lemma isoTimePart_composed:
  assumes "0 \<le> h" "h \<le> 99" "0 \<le> mi" "mi \<le> 99" "0 \<le> s" "s \<le> 99"
  shows "isoTimePart (padStart 2 CHR ''0'' (showInt h) @ CHR '':'' # padStart 2 CHR ''0'' (showInt mi) @
                      CHR '':'' # padStart 2 CHR ''0'' (showInt s) @ rest)
         = Some (h, mi, s, rest)"
  unfolding isoTimePart_def using assms
  by (simp add: takeDigits_pad2 expect_Cons)


lemma toInteger_of_int: "toInteger (of_int x) = x"
  by (simp add: toInteger_def)

lemma TimeClip_int:
  "TimeClip (Num (of_int x)) = (if \<bar>x\<bar> > 8640000000000000 then NaN else Num (of_int x))"
proof -
  have "(\<bar>rat_of_int x\<bar> > 8640000000000000) = (\<bar>x\<bar> > 8640000000000000)"
  proof -
    have "\<bar>rat_of_int x\<bar> = of_int \<bar>x\<bar>" by simp
    moreover have "(8640000000000000 :: rat) = of_int 8640000000000000" by simp
    ultimately show ?thesis by (simp only: of_int_less_iff)
  qed
  then show ?thesis by (simp add: toInteger_of_int)
qed

lemma floorDiv1000_int: "floorDiv1000 (Num (of_int x)) = Num (of_int (x div 1000))"
proof -
  have "\<lfloor>rat_of_int x / rat_of_int 1000\<rfloor> = x div 1000" by (rule floor_divide_of_int_eq)
  then show ?thesis by simp
qed

lemma designator_cases:
  assumes "designatorOffset tz = Some off"
  shows "tz = ''Z'' \<or> offsetPattern tz"
  using assms
  by (auto simp: designatorOffset_def offsetPattern_def isDigit_def split: if_splits list.splits option.splits)

lemma designator_millis:
  assumes "designatorOffset tz = Some off"
  shows "isoMillisPart tz = Some (0, tz)"
  using assms
  by (auto simp: designatorOffset_def isoMillisPart_def split: if_splits list.splits option.splits)

lemma designator_offset:
  assumes "designatorOffset tz = Some off"
  shows "\<exists>sg hh mm. isoOffsetPart tz = Some (sg, hh, mm) \<and> sg * (hh * 60 + mm) = off"
proof (cases "tz = ''Z''")
  case True
  then show ?thesis using assms by (simp add: designatorOffset_def isoOffsetPart_def)
next
  case False
  then obtain sg a b c e f p q r t where tz: "tz = [sg, a, b, c, e, f]"
    and dv: "digitVal a = Some p" "digitVal b = Some q" "digitVal e = Some r" "digitVal f = Some t"
    and sg: "sg = CHR ''+'' \<or> sg = CHR ''-''" and c: "c = CHR '':''"
    and off: "off = (if sg = CHR ''-'' then - 1 else 1) * int (60 * (10 * p + q) + (10 * r + t))"
    using assms
    by (auto simp: designatorOffset_def split: if_splits list.splits option.splits)
  have 1: "takeDigits 2 (a # b # rest) = Some (int (10 * p + q), rest)" for rest
    using dv by (simp add: takeDigits_def isDigit_def)
  have 2: "takeDigits 2 [e, f] = Some (int (10 * r + t), [])"
    using dv by (simp add: takeDigits_def isDigit_def)
  have "isoOffsetPart tz = Some (if sg = CHR ''-'' then - 1 else 1, int (10 * p + q), int (10 * r + t))"
    using sg unfolding tz c isoOffsetPart_def
    by (auto simp: 1 2 expect_Cons)
  then show ?thesis using off by auto
qed

lemma isoFields_composed:
  fixes y mo d h mi s :: int
  assumes r: "0 \<le> mo" "mo \<le> 99" "0 \<le> d" "d \<le> 99" "0 \<le> h" "h \<le> 99" "0 \<le> mi" "mi \<le> 99"
             "0 \<le> s" "s \<le> 99" "\<bar>y\<bar> < 10 ^ 21"
    and ms: "isoMillisPart tz = Some (0, tz)"
    and off: "isoOffsetPart tz = Some (sg, hh, mm)"
  shows "isoFields (isoString H (Num (of_int y)) (Num (of_int mo)) (Num (of_int d)) (Num (of_int h))
                      (Num (of_int mi)) (Num (of_int s)) tz)
         = (if yearShape y
            then Some \<lparr>isoYear = y, isoMonth = mo, isoDay = d, isoHour = h, isoMinute = mi,
                       isoSecond = s, isoMillis = 0, offSign = sg, offHour = hh, offMinute = mm\<rparr>
            else None)"
proof -
  have small: "\<bar>n\<bar> < 10 ^ 21" if "0 \<le> n" "n \<le> 99" for n :: int
    using that by simp
  have str: "isoString H (Num (of_int y)) (Num (of_int mo)) (Num (of_int d)) (Num (of_int h))
                      (Num (of_int mi)) (Num (of_int s)) tz
      = showInt y @ ''-'' @ padStart 2 CHR ''0'' (showInt mo) @ ''-'' @ padStart 2 CHR ''0'' (showInt d) @
        (CHR ''T'' # (padStart 2 CHR ''0'' (showInt h) @ '':'' @ padStart 2 CHR ''0'' (showInt mi) @ '':'' @
                      padStart 2 CHR ''0'' (showInt s) @ tz))"
    unfolding isoString_def using r small by (simp add: ToString_int del: ToString.simps)
  show ?thesis
    unfolding str isoFields_def
    using r ms off
    by (simp only: isoDatePart_composed) (simp add: expect_Cons isoTimePart_composed)
qed

subsection \<open>The two paths\<close>

lemma jsLt_int [simp]: "jsLt (Num (of_int a)) (Num b) = (of_int a < b)" "jsGt (Num (of_int a)) (Num b) = (b < of_int a)"
  by (simp_all add: jsGt_def)

lemma validation_passes:
  fixes mo d h mi s :: int
  assumes "1 \<le> mo" "mo \<le> 12" "1 \<le> d" "d \<le> 31" "0 \<le> h" "h \<le> 23" "0 \<le> mi" "mi \<le> 59"
          "0 \<le> s" "s \<le> 59"
  shows "dateToUnixTime H y (Num (of_int mo)) (Num (of_int d)) (Num (of_int h)) (Num (of_int mi))
           (Num (of_int s)) tz useMs
         = (if tz = ''Z'' \<or> offsetPattern tz
            then handleUtcOffset H y (Num (of_int mo)) (Num (of_int d)) (Num (of_int h))
                   (Num (of_int mi)) (Num (of_int s)) tz useMs
            else handleIanaTimezone H y (Num (of_int mo)) (Num (of_int d)) (Num (of_int h))
                   (Num (of_int mi)) (Num (of_int s)) tz useMs)"
proof -
  have "\<not> rat_of_int mo < 1" "\<not> 12 < rat_of_int mo" "\<not> rat_of_int d < 1" "\<not> 31 < rat_of_int d"
       "\<not> rat_of_int h < 0" "\<not> 23 < rat_of_int h" "\<not> rat_of_int mi < 0" "\<not> 59 < rat_of_int mi"
       "\<not> rat_of_int s < 0" "\<not> 59 < rat_of_int s"
    using assms by simp_all
  then show ?thesis
    unfolding dateToUnixTime_def by (simp only: jsLt_int if_False simp_thms)
qed

lemma offset_result:
  fixes y mo d h mi s off :: int
  assumes r: "1 \<le> mo" "mo \<le> 12" "1 \<le> d" "d \<le> 31" "0 \<le> h" "h \<le> 23" "0 \<le> mi" "mi \<le> 59"
          "0 \<le> s" "s \<le> 59" "\<bar>y\<bar> < 10 ^ 21"
    and des: "designatorOffset tz = Some off"
    and ext: "isoFields (isoString H (Num (of_int y)) (Num (of_int mo)) (Num (of_int d)) (Num (of_int h))
                 (Num (of_int mi)) (Num (of_int s)) tz) = None \<longrightarrow>
              otherParse H (isoString H (Num (of_int y)) (Num (of_int mo)) (Num (of_int d))
                 (Num (of_int h)) (Num (of_int mi)) (Num (of_int s)) tz) = NaN"
    and ok: "dateToUnixTime H (Num (of_int y)) (Num (of_int mo)) (Num (of_int d)) (Num (of_int h))
               (Num (of_int mi)) (Num (of_int s)) tz useMs = Inr r"
  shows "r = Num (of_int (if orFalse useMs then utcMillis y mo d h mi s - off * msPerMinute
                          else (utcMillis y mo d h mi s - off * msPerMinute) div 1000))"
proof -
  let ?s = "isoString H (Num (of_int y)) (Num (of_int mo)) (Num (of_int d)) (Num (of_int h))
                 (Num (of_int mi)) (Num (of_int s)) tz"
  let ?T = "utcMillis y mo d h mi s - off * msPerMinute"
  have path: "tz = ''Z'' \<or> offsetPattern tz" using des by (rule designator_cases)
  have hu: "handleUtcOffset H (Num (of_int y)) (Num (of_int mo)) (Num (of_int d)) (Num (of_int h))
               (Num (of_int mi)) (Num (of_int s)) tz useMs = Inr r"
    using ok path validation_passes[OF r(1-10), of H "Num (of_int y)" tz useMs] by simp
  then have nn: "DateParse H ?s \<noteq> NaN"
    and res: "r = (if orFalse useMs then DateParse H ?s else floorDiv1000 (DateParse H ?s))"
    by (auto simp: handleUtcOffset_def Let_def isNaN_def split: if_splits)
  obtain sg hh mm where off: "isoOffsetPart tz = Some (sg, hh, mm)" "sg * (hh * 60 + mm) = off"
    using designator_offset[OF des] by blast
  have ms: "isoMillisPart tz = Some (0, tz)" using des by (rule designator_millis)
  have fields: "isoFields ?s = (if yearShape y
            then Some \<lparr>isoYear = y, isoMonth = mo, isoDay = d, isoHour = h, isoMinute = mi,
                       isoSecond = s, isoMillis = 0, offSign = sg, offHour = hh, offMinute = mm\<rparr>
            else None)"
    using r by (intro isoFields_composed ms off(1)) simp_all
  have ys: "yearShape y"
  proof (rule ccontr)
    assume "\<not> yearShape y"
    then have "isoFields ?s = None" using fields by simp
    then have "DateParse H ?s = NaN" using ext by (simp add: DateParse_def)
    then show False using nn by simp
  qed
  let ?f = "\<lparr>isoYear = y, isoMonth = mo, isoDay = d, isoHour = h, isoMinute = mi,
                       isoSecond = s, isoMillis = 0, offSign = sg, offHour = hh, offMinute = mm\<rparr>"
  have dp: "DateParse H ?s = isoTimeValue (dayOverflowRolls H) ?f"
    using fields ys by (simp add: DateParse_def)
  have tv: "MakeDate (MakeDay (isoYear ?f) (isoMonth ?f - 1) (isoDay ?f))
                  (MakeTime (isoHour ?f) (isoMinute ?f) (isoSecond ?f) (isoMillis ?f))
         - offSign ?f * (offHour ?f * 60 + offMinute ?f) * msPerMinute = ?T"
    using off(2) by (simp add: utcMillis_def)
  have "isoTimeValue (dayOverflowRolls H) ?f = NaN \<or> isoTimeValue (dayOverflowRolls H) ?f = Num (of_int ?T)"
    unfolding isoTimeValue_def tv TimeClip_int by simp
  then have "DateParse H ?s = Num (of_int ?T)" using nn dp by simp
  then show ?thesis using res
    by (cases "orFalse useMs") (simp_all only: floorDiv1000_int if_True if_False)
qed

lemma handleUtcOffset_error:
  "handleUtcOffset H y mo d h mi s tz ms = Inl (k, msg) \<Longrightarrow> k = InvalidDate"
  by (auto simp: handleUtcOffset_def Let_def split: if_splits)

lemma handleIanaTimezone_error:
  "handleIanaTimezone H y mo d h mi s tz ms = Inl (k, msg) \<Longrightarrow> k = InvalidTimezone"
  by (auto simp: handleIanaTimezone_def Let_def split: if_splits option.splits sum.splits)

lemma isDigit_chars: "isDigit c = (c \<in> set ''0123456789'')"
proof -
  have "(map_of (zip decimalDigits [0, 1, 2, 3, 4, 5, 6, 7, 8, 9 :: nat]) c = None) = (c \<notin> set decimalDigits)"
    by (intro map_of_zip_is_None) (simp add: decimalDigits_def)
  then show ?thesis unfolding isDigit_def digitVal_def by (simp add: decimalDigits_def)
qed

lemma offsetPattern_shape:
  "offsetPattern tz =
     (\<exists>sg a b e f. tz = [sg, a, b, CHR '':'', e, f] \<and> (sg = CHR ''+'' \<or> sg = CHR ''-'') \<and>
        isDigit a \<and> isDigit b \<and> isDigit e \<and> isDigit f)"
  unfolding offsetPattern_def by (simp split: list.splits) blast

lemma offset_out_of_bounds:
  fixes y mo d h mi s :: int
  assumes r: "1 \<le> mo" "mo \<le> 12" "1 \<le> d" "d \<le> 31" "0 \<le> h" "h \<le> 23" "0 \<le> mi" "mi \<le> 59"
          "0 \<le> s" "s \<le> 59" "\<bar>y\<bar> < 10 ^ 21" and ys: "yearShape y"
  shows "dateToUnixTime H (Num (of_int y)) (Num (of_int mo)) (Num (of_int d)) (Num (of_int h))
           (Num (of_int mi)) (Num (of_int s)) ''+99:99'' ms =
         Inl (InvalidDate, ''Invalid date: '' @
           isoString H (Num (of_int y)) (Num (of_int mo)) (Num (of_int d)) (Num (of_int h))
             (Num (of_int mi)) (Num (of_int s)) ''+99:99'')"
proof -
  let ?s = "isoString H (Num (of_int y)) (Num (of_int mo)) (Num (of_int d)) (Num (of_int h))
             (Num (of_int mi)) (Num (of_int s)) ''+99:99''"
  have p: "offsetPattern ''+99:99''"
    by (simp add: offsetPattern_def isDigit_def digitVal_def decimalDigits_def)
  have m: "isoMillisPart ''+99:99'' = Some (0, ''+99:99'')" by (simp add: isoMillisPart_def)
  have o: "isoOffsetPart ''+99:99'' = Some (1, 99, 99)"
    by (simp add: isoOffsetPart_def takeDigits_def isDigit_def digitVal_def decimalDigits_def expect_def)
  have "isoFields ?s = Some \<lparr>isoYear = y, isoMonth = mo, isoDay = d, isoHour = h, isoMinute = mi,
                       isoSecond = s, isoMillis = 0, offSign = 1, offHour = 99, offMinute = 99\<rparr>"
    using r ys isoFields_composed [OF _ _ _ _ _ _ _ _ _ _ r(11) m o, of mo d h mi s H] by simp
  then have "DateParse H ?s = NaN"
    by (simp add: DateParse_def isoTimeValue_def isoOutOfBounds_def)
  then have "handleUtcOffset H (Num (of_int y)) (Num (of_int mo)) (Num (of_int d)) (Num (of_int h))
           (Num (of_int mi)) (Num (of_int s)) ''+99:99'' ms = Inl (InvalidDate, ''Invalid date: '' @ ?s)"
    by (simp add: handleUtcOffset_def isNaN_def)
  then show ?thesis
    using p validation_passes [OF r(1-10), of H "Num (of_int y)" "''+99:99''" ms] by simp
qed

lemma inside_passes:
  "insideOrUnordered x lo hi \<Longrightarrow> \<not> (jsLt x (Num lo) \<or> jsGt x (Num hi))"
  by (cases x) (auto simp: insideOrUnordered_def jsGt_def)

lemma example_Z:
  "dateToUnixTime H (Num 2024) (Num 12) (Num 4) (Num 12) (Num 30) (Num 0) ''Z'' None = Inr (Num 1733315400)"
  by (simp add: program_defs text_defs parse_defs calendar_defs)

lemma example_plus:
  "dateToUnixTime H (Num 2024) (Num 12) (Num 4) (Num 18) (Num 0) (Num 0) ''+05:30'' None = Inr (Num 1733315400)"
  by (simp add: program_defs text_defs parse_defs calendar_defs)

lemma example_minus:
  "dateToUnixTime H (Num 2024) (Num 12) (Num 4) (Num 7) (Num 30) (Num 0) ''-05:00'' None = Inr (Num 1733315400)"
  by (simp add: program_defs text_defs parse_defs calendar_defs)























lemma sample_Kolkata_zone: "dateTimeFormatError sampleHost ''Asia/Kolkata'' = None"
  by (simp add: sampleHost_def)


section \<open>The claims\<close>

text \<open>
  C3. A call whose month, day, hour, minute or second lies outside its range fails with
  the message of the first such field, whatever the timezone text and the host: no
  resolver is reached.
\<close>

theorem C3_range_failures:
  fixes mo d h mi s :: int
  shows
  "(mo < 1 \<or> 12 < mo \<longrightarrow>
      dateToUnixTime H y (Num (of_int mo)) d' h' mi' s' tz ms =
        Inl (InvalidMonth, ''Invalid month: '' @ ToString H (Num (of_int mo)) @ ''. Must be between 1-12'')) \<and>
   (1 \<le> mo \<and> mo \<le> 12 \<and> (d < 1 \<or> 31 < d) \<longrightarrow>
      dateToUnixTime H y (Num (of_int mo)) (Num (of_int d)) h' mi' s' tz ms =
        Inl (InvalidDay, ''Invalid day: '' @ ToString H (Num (of_int d)) @ ''. Must be between 1-31'')) \<and>
   (1 \<le> mo \<and> mo \<le> 12 \<and> 1 \<le> d \<and> d \<le> 31 \<and> (h < 0 \<or> 23 < h) \<longrightarrow>
      dateToUnixTime H y (Num (of_int mo)) (Num (of_int d)) (Num (of_int h)) mi' s' tz ms =
        Inl (InvalidHour, ''Invalid hour: '' @ ToString H (Num (of_int h)) @ ''. Must be between 0-23'')) \<and>
   (1 \<le> mo \<and> mo \<le> 12 \<and> 1 \<le> d \<and> d \<le> 31 \<and> 0 \<le> h \<and> h \<le> 23 \<and> (mi < 0 \<or> 59 < mi) \<longrightarrow>
      dateToUnixTime H y (Num (of_int mo)) (Num (of_int d)) (Num (of_int h)) (Num (of_int mi)) s' tz ms =
        Inl (InvalidMinute, ''Invalid minute: '' @ ToString H (Num (of_int mi)) @ ''. Must be between 0-59'')) \<and>
   (1 \<le> mo \<and> mo \<le> 12 \<and> 1 \<le> d \<and> d \<le> 31 \<and> 0 \<le> h \<and> h \<le> 23 \<and> 0 \<le> mi \<and> mi \<le> 59 \<and>
      (s < 0 \<or> 59 < s) \<longrightarrow>
      dateToUnixTime H y (Num (of_int mo)) (Num (of_int d)) (Num (of_int h)) (Num (of_int mi))
          (Num (of_int s)) tz ms =
        Inl (InvalidSecond, ''Invalid second: '' @ ToString H (Num (of_int s)) @ ''. Must be between 0-59'')) \<and>
   dateToUnixTime H (Num 2024) (Num 13) (Num 1) (Num 0) (Num 0) (Num 0) ''Z'' ms =
     Inl (InvalidMonth, ''Invalid month: 13. Must be between 1-12'') \<and>
   dateToUnixTime H (Num 2024) (Num 1) (Num 1) (Num 24) (Num 0) (Num 0) ''Z'' ms =
     Inl (InvalidHour, ''Invalid hour: 24. Must be between 0-23'')"
proof (intro conjI impI)
  assume "mo < 1 \<or> 12 < mo"
  then have "rat_of_int mo < 1 \<or> 12 < rat_of_int mo" by auto
  then show "dateToUnixTime H y (Num (of_int mo)) d' h' mi' s' tz ms =
        Inl (InvalidMonth, ''Invalid month: '' @ ToString H (Num (of_int mo)) @ ''. Must be between 1-12'')"
    unfolding dateToUnixTime_def by (simp only: jsLt_int if_True)
next
  assume a: "1 \<le> mo \<and> mo \<le> 12 \<and> (d < 1 \<or> 31 < d)"
  then have "\<not> (rat_of_int mo < 1 \<or> 12 < rat_of_int mo)" "rat_of_int d < 1 \<or> 31 < rat_of_int d" by auto
  then show "dateToUnixTime H y (Num (of_int mo)) (Num (of_int d)) h' mi' s' tz ms =
        Inl (InvalidDay, ''Invalid day: '' @ ToString H (Num (of_int d)) @ ''. Must be between 1-31'')"
    unfolding dateToUnixTime_def by (simp only: jsLt_int if_True if_False)
next
  assume a: "1 \<le> mo \<and> mo \<le> 12 \<and> 1 \<le> d \<and> d \<le> 31 \<and> (h < 0 \<or> 23 < h)"
  then have "\<not> (rat_of_int mo < 1 \<or> 12 < rat_of_int mo)" "\<not> (rat_of_int d < 1 \<or> 31 < rat_of_int d)"
    "rat_of_int h < 0 \<or> 23 < rat_of_int h" by auto
  then show "dateToUnixTime H y (Num (of_int mo)) (Num (of_int d)) (Num (of_int h)) mi' s' tz ms =
        Inl (InvalidHour, ''Invalid hour: '' @ ToString H (Num (of_int h)) @ ''. Must be between 0-23'')"
    unfolding dateToUnixTime_def by (simp only: jsLt_int if_True if_False)
next
  assume a: "1 \<le> mo \<and> mo \<le> 12 \<and> 1 \<le> d \<and> d \<le> 31 \<and> 0 \<le> h \<and> h \<le> 23 \<and> (mi < 0 \<or> 59 < mi)"
  then have "\<not> (rat_of_int mo < 1 \<or> 12 < rat_of_int mo)" "\<not> (rat_of_int d < 1 \<or> 31 < rat_of_int d)"
    "\<not> (rat_of_int h < 0 \<or> 23 < rat_of_int h)" "rat_of_int mi < 0 \<or> 59 < rat_of_int mi" by auto
  then show "dateToUnixTime H y (Num (of_int mo)) (Num (of_int d)) (Num (of_int h)) (Num (of_int mi)) s' tz ms =
        Inl (InvalidMinute, ''Invalid minute: '' @ ToString H (Num (of_int mi)) @ ''. Must be between 0-59'')"
    unfolding dateToUnixTime_def by (simp only: jsLt_int if_True if_False)
next
  assume a: "1 \<le> mo \<and> mo \<le> 12 \<and> 1 \<le> d \<and> d \<le> 31 \<and> 0 \<le> h \<and> h \<le> 23 \<and> 0 \<le> mi \<and> mi \<le> 59 \<and>
      (s < 0 \<or> 59 < s)"
  then have "\<not> (rat_of_int mo < 1 \<or> 12 < rat_of_int mo)" "\<not> (rat_of_int d < 1 \<or> 31 < rat_of_int d)"
    "\<not> (rat_of_int h < 0 \<or> 23 < rat_of_int h)" "\<not> (rat_of_int mi < 0 \<or> 59 < rat_of_int mi)"
    "rat_of_int s < 0 \<or> 59 < rat_of_int s" by auto
  then show "dateToUnixTime H y (Num (of_int mo)) (Num (of_int d)) (Num (of_int h)) (Num (of_int mi))
          (Num (of_int s)) tz ms =
        Inl (InvalidSecond, ''Invalid second: '' @ ToString H (Num (of_int s)) @ ''. Must be between 0-59'')"
    unfolding dateToUnixTime_def by (simp only: jsLt_int if_True if_False)
next
  show "dateToUnixTime H (Num 2024) (Num 13) (Num 1) (Num 0) (Num 0) (Num 0) ''Z'' ms =
     Inl (InvalidMonth, ''Invalid month: 13. Must be between 1-12'')"
    by (simp add: dateToUnixTime_def jsGt_def text_defs)
next
  show "dateToUnixTime H (Num 2024) (Num 1) (Num 1) (Num 24) (Num 0) (Num 0) ''Z'' ms =
     Inl (InvalidHour, ''Invalid hour: 24. Must be between 0-23'')"
    by (simp add: dateToUnixTime_def jsGt_def text_defs)
qed

theorem C3_range_failures_witness:
  "dateToUnixTime sampleHost (Num 2024) (Num 0) (Num 15) (Num 12) (Num 0) (Num 0) ''Z'' None =
     Inl (InvalidMonth, ''Invalid month: 0. Must be between 1-12'') \<and>
   dateToUnixTime sampleHost (Num 2024) (Num 6) (Num 32) (Num 12) (Num 0) (Num 0) ''Not/AZone'' None =
     Inl (InvalidDay, ''Invalid day: 32. Must be between 1-31'') \<and>
   dateToUnixTime sampleHost (Num 2024) (Num 6) (Num 15) (Num (- 1)) (Num 0) (Num 0) ''+05:30'' None =
     Inl (InvalidHour, ''Invalid hour: -1. Must be between 0-23'') \<and>
   dateToUnixTime sampleHost (Num 2024) (Num 6) (Num 15) (Num 12) (Num 60) (Num 0) ''Asia/Kolkata'' None =
     Inl (InvalidMinute, ''Invalid minute: 60. Must be between 0-59'') \<and>
   dateToUnixTime sampleHost (Num 2024) (Num 6) (Num 15) (Num 12) (Num 0) (Num 60) ''Z'' (Some True) =
     Inl (InvalidSecond, ''Invalid second: 60. Must be between 0-59'')"
proof -
  note c = C3_range_failures [where H = sampleHost and y = "Num 2024"]
  have 1: "dateToUnixTime sampleHost (Num 2024) (Num (of_int 0)) (Num 15) (Num 12) (Num 0) (Num 0) ''Z'' None =
     Inl (InvalidMonth, ''Invalid month: '' @ ToString sampleHost (Num (of_int 0)) @ ''. Must be between 1-12'')"
    by (rule c [THEN conjunct1, rule_format]) simp
  have 2: "dateToUnixTime sampleHost (Num 2024) (Num (of_int 6)) (Num (of_int 32)) (Num 12) (Num 0) (Num 0)
       ''Not/AZone'' None =
     Inl (InvalidDay, ''Invalid day: '' @ ToString sampleHost (Num (of_int 32)) @ ''. Must be between 1-31'')"
    by (rule c [THEN conjunct2, THEN conjunct1, rule_format]) simp
  have 3: "dateToUnixTime sampleHost (Num 2024) (Num (of_int 6)) (Num (of_int 15)) (Num (of_int (- 1))) (Num 0)
       (Num 0) ''+05:30'' None =
     Inl (InvalidHour, ''Invalid hour: '' @ ToString sampleHost (Num (of_int (- 1))) @ ''. Must be between 0-23'')"
    by (rule c [THEN conjunct2, THEN conjunct2, THEN conjunct1, rule_format]) simp
  have 4: "dateToUnixTime sampleHost (Num 2024) (Num (of_int 6)) (Num (of_int 15)) (Num (of_int 12))
       (Num (of_int 60)) (Num 0) ''Asia/Kolkata'' None =
     Inl (InvalidMinute, ''Invalid minute: '' @ ToString sampleHost (Num (of_int 60)) @ ''. Must be between 0-59'')"
    by (rule c [THEN conjunct2, THEN conjunct2, THEN conjunct2, THEN conjunct1, rule_format]) simp
  have 5: "dateToUnixTime sampleHost (Num 2024) (Num (of_int 6)) (Num (of_int 15)) (Num (of_int 12))
       (Num (of_int 0)) (Num (of_int 60)) ''Z'' (Some True) =
     Inl (InvalidSecond, ''Invalid second: '' @ ToString sampleHost (Num (of_int 60)) @ ''. Must be between 0-59'')"
    by (rule c [THEN conjunct2, THEN conjunct2, THEN conjunct2, THEN conjunct2, THEN conjunct1, rule_format]) simp
  have t: "ToString sampleHost (Num 0) = ''0''" "ToString sampleHost (Num 32) = ''32''"
    "ToString sampleHost (Num 60) = ''60''"
    by (simp_all add: text_defs)
  have t': "ToString sampleHost (Num (- 1)) = ''-1''"
    using ToString_int [of "- 1" sampleHost] by (simp add: text_defs del: ToString.simps)
  from 1 2 3 4 5 show ?thesis by (simp add: t t' del: ToString.simps)
qed


text \<open>
  C6. After validation the call goes to the offset resolver exactly when the timezone
  text is \<^verbatim>\<open>Z\<close> or a sign, two digits, a colon and two digits, and to the named-zone
  resolver otherwise. The offset resolver raises nothing but InvalidDate and the
  named-zone resolver nothing but InvalidTimezone; \<^verbatim>\<open>+99:99\<close> takes the offset path and
  fails there with InvalidDate.
\<close>

theorem C6_dispatch_by_syntax:
  fixes y mo d h mi s :: int
  shows
  "(1 \<le> mo \<and> mo \<le> 12 \<and> 1 \<le> d \<and> d \<le> 31 \<and> 0 \<le> h \<and> h \<le> 23 \<and> 0 \<le> mi \<and> mi \<le> 59 \<and>
    0 \<le> s \<and> s \<le> 59 \<longrightarrow>
      dateToUnixTime H yr (Num (of_int mo)) (Num (of_int d)) (Num (of_int h)) (Num (of_int mi))
          (Num (of_int s)) tz ms =
        (if tz = ''Z'' \<or>
            (\<exists>sg a b e f. tz = [sg, a, b, CHR '':'', e, f] \<and> (sg = CHR ''+'' \<or> sg = CHR ''-'') \<and>
               isDigit a \<and> isDigit b \<and> isDigit e \<and> isDigit f)
         then handleUtcOffset H yr (Num (of_int mo)) (Num (of_int d)) (Num (of_int h))
                (Num (of_int mi)) (Num (of_int s)) tz ms
         else handleIanaTimezone H yr (Num (of_int mo)) (Num (of_int d)) (Num (of_int h))
                (Num (of_int mi)) (Num (of_int s)) tz ms)) \<and>
   (\<forall>c. isDigit c = (c \<in> set ''0123456789'')) \<and>
   (\<forall>k msg. handleUtcOffset H yr mo' d' h' mi' s' tz ms = Inl (k, msg) \<longrightarrow> k = InvalidDate) \<and>
   (\<forall>k msg. handleIanaTimezone H yr mo' d' h' mi' s' tz ms = Inl (k, msg) \<longrightarrow> k = InvalidTimezone) \<and>
   (1 \<le> mo \<and> mo \<le> 12 \<and> 1 \<le> d \<and> d \<le> 31 \<and> 0 \<le> h \<and> h \<le> 23 \<and> 0 \<le> mi \<and> mi \<le> 59 \<and>
    0 \<le> s \<and> s \<le> 59 \<and> \<bar>y\<bar> < 10 ^ 21 \<and> yearShape y \<longrightarrow>
      dateToUnixTime H (Num (of_int y)) (Num (of_int mo)) (Num (of_int d)) (Num (of_int h))
          (Num (of_int mi)) (Num (of_int s)) ''+99:99'' ms =
        Inl (InvalidDate, ''Invalid date: '' @
          isoString H (Num (of_int y)) (Num (of_int mo)) (Num (of_int d)) (Num (of_int h))
            (Num (of_int mi)) (Num (of_int s)) ''+99:99'')) \<and>
   dateToUnixTime H (Num 2024) (Num 1) (Num 1) (Num 0) (Num 0) (Num 0) ''+99:99'' ms =
     Inl (InvalidDate, ''Invalid date: 2024-01-01T00:00:00+99:99'')"
proof (intro conjI impI allI)
  assume "1 \<le> mo \<and> mo \<le> 12 \<and> 1 \<le> d \<and> d \<le> 31 \<and> 0 \<le> h \<and> h \<le> 23 \<and> 0 \<le> mi \<and> mi \<le> 59 \<and>
    0 \<le> s \<and> s \<le> 59"
  then show "dateToUnixTime H yr (Num (of_int mo)) (Num (of_int d)) (Num (of_int h)) (Num (of_int mi))
          (Num (of_int s)) tz ms =
        (if tz = ''Z'' \<or>
            (\<exists>sg a b e f. tz = [sg, a, b, CHR '':'', e, f] \<and> (sg = CHR ''+'' \<or> sg = CHR ''-'') \<and>
               isDigit a \<and> isDigit b \<and> isDigit e \<and> isDigit f)
         then handleUtcOffset H yr (Num (of_int mo)) (Num (of_int d)) (Num (of_int h))
                (Num (of_int mi)) (Num (of_int s)) tz ms
         else handleIanaTimezone H yr (Num (of_int mo)) (Num (of_int d)) (Num (of_int h))
                (Num (of_int mi)) (Num (of_int s)) tz ms)"
    unfolding offsetPattern_shape [symmetric] by (intro validation_passes) simp_all
next
  fix c show "isDigit c = (c \<in> set ''0123456789'')" by (rule isDigit_chars)
next
  fix k msg assume "handleUtcOffset H yr mo' d' h' mi' s' tz ms = Inl (k, msg)"
  then show "k = InvalidDate" by (rule handleUtcOffset_error)
next
  fix k msg assume "handleIanaTimezone H yr mo' d' h' mi' s' tz ms = Inl (k, msg)"
  then show "k = InvalidTimezone" by (rule handleIanaTimezone_error)
next
  assume "1 \<le> mo \<and> mo \<le> 12 \<and> 1 \<le> d \<and> d \<le> 31 \<and> 0 \<le> h \<and> h \<le> 23 \<and> 0 \<le> mi \<and> mi \<le> 59 \<and>
    0 \<le> s \<and> s \<le> 59 \<and> \<bar>y\<bar> < 10 ^ 21 \<and> yearShape y"
  then show "dateToUnixTime H (Num (of_int y)) (Num (of_int mo)) (Num (of_int d)) (Num (of_int h))
          (Num (of_int mi)) (Num (of_int s)) ''+99:99'' ms =
        Inl (InvalidDate, ''Invalid date: '' @
          isoString H (Num (of_int y)) (Num (of_int mo)) (Num (of_int d)) (Num (of_int h))
            (Num (of_int mi)) (Num (of_int s)) ''+99:99'')"
    by (intro offset_out_of_bounds) simp_all
next
  show "dateToUnixTime H (Num 2024) (Num 1) (Num 1) (Num 0) (Num 0) (Num 0) ''+99:99'' ms =
     Inl (InvalidDate, ''Invalid date: 2024-01-01T00:00:00+99:99'')"
    by (simp add: program_defs text_defs parse_defs)
qed

theorem C6_dispatch_by_syntax_witness:
  "dateToUnixTime sampleHost (Num 2024) (Num 12) (Num 4) (Num 18) (Num 0) (Num 0) ''+05:30'' None =
     handleUtcOffset sampleHost (Num 2024) (Num 12) (Num 4) (Num 18) (Num 0) (Num 0) ''+05:30'' None \<and>
   dateToUnixTime sampleHost (Num 2024) (Num 12) (Num 4) (Num 18) (Num 0) (Num 0) ''+0530'' None =
     handleIanaTimezone sampleHost (Num 2024) (Num 12) (Num 4) (Num 18) (Num 0) (Num 0) ''+0530'' None \<and>
   dateToUnixTime sampleHost (Num 1999) (Num 12) (Num 31) (Num 23) (Num 59) (Num 59) ''+99:99'' None =
     Inl (InvalidDate, ''Invalid date: 1999-12-31T23:59:59+99:99'')"
proof -
  note c = C6_dispatch_by_syntax [where H = sampleHost and ms = None]
  have r: "1 \<le> (12::int) \<and> (12::int) \<le> 12 \<and> 1 \<le> (4::int) \<and> (4::int) \<le> 31 \<and> 0 \<le> (18::int) \<and>
    (18::int) \<le> 23 \<and> 0 \<le> (0::int) \<and> (0::int) \<le> 59 \<and> 0 \<le> (0::int) \<and> (0::int) \<le> 59"
    by simp
  have 1: "dateToUnixTime sampleHost (Num 2024) (Num 12) (Num 4) (Num 18) (Num 0) (Num 0) ''+05:30'' None =
     handleUtcOffset sampleHost (Num 2024) (Num 12) (Num 4) (Num 18) (Num 0) (Num 0) ''+05:30'' None"
    using c [where yr = "Num 2024" and tz = "''+05:30''", THEN conjunct1, rule_format, OF r]
    by (simp add: isDigit_def digitVal_def decimalDigits_def)
  have 2: "dateToUnixTime sampleHost (Num 2024) (Num 12) (Num 4) (Num 18) (Num 0) (Num 0) ''+0530'' None =
     handleIanaTimezone sampleHost (Num 2024) (Num 12) (Num 4) (Num 18) (Num 0) (Num 0) ''+0530'' None"
    using c [where yr = "Num 2024" and tz = "''+0530''", THEN conjunct1, rule_format, OF r]
    by simp
  have r3: "1 \<le> (12::int) \<and> (12::int) \<le> 12 \<and> 1 \<le> (31::int) \<and> (31::int) \<le> 31 \<and> 0 \<le> (23::int) \<and>
    (23::int) \<le> 23 \<and> 0 \<le> (59::int) \<and> (59::int) \<le> 59 \<and> 0 \<le> (59::int) \<and> (59::int) \<le> 59 \<and>
    \<bar>1999::int\<bar> < 10 ^ 21 \<and> yearShape 1999"
    by (simp add: yearShape_def showNat.simps)
  have 3: "dateToUnixTime sampleHost (Num 1999) (Num 12) (Num 31) (Num 23) (Num 59) (Num 59) ''+99:99'' None =
     Inl (InvalidDate, ''Invalid date: 1999-12-31T23:59:59+99:99'')"
    using c [THEN conjunct2, THEN conjunct2, THEN conjunct2, THEN conjunct2, THEN conjunct1,
             rule_format, OF r3]
    by (simp add: isoString_def text_defs)
  from 1 2 3 show ?thesis by blast
qed

text \<open>
  C10. The validator compares and never tests for an integer: a component inside its
  range, integer or not, and a component that is \<^verbatim>\<open>NaN\<close> raise none of the five
  range errors, and the call goes on to a resolver.
\<close>

theorem C10_no_integrality_check:
  "insideOrUnordered mo 1 12 \<and> insideOrUnordered d 1 31 \<and> insideOrUnordered h 0 23 \<and>
   insideOrUnordered mi 0 59 \<and> insideOrUnordered s 0 59 \<longrightarrow>
     dateToUnixTime H y mo d h mi s tz ms =
       (if tz = ''Z'' \<or> offsetPattern tz then handleUtcOffset H y mo d h mi s tz ms
        else handleIanaTimezone H y mo d h mi s tz ms) \<and>
     (\<forall>k msg. dateToUnixTime H y mo d h mi s tz ms = Inl (k, msg) \<longrightarrow>
        k \<noteq> InvalidMonth \<and> k \<noteq> InvalidDay \<and> k \<noteq> InvalidHour \<and> k \<noteq> InvalidMinute \<and>
        k \<noteq> InvalidSecond)"
proof (intro impI)
  assume a: "insideOrUnordered mo 1 12 \<and> insideOrUnordered d 1 31 \<and> insideOrUnordered h 0 23 \<and>
   insideOrUnordered mi 0 59 \<and> insideOrUnordered s 0 59"
  then have p: "\<not> (jsLt mo (Num 1) \<or> jsGt mo (Num 12))" "\<not> (jsLt d (Num 1) \<or> jsGt d (Num 31))"
    "\<not> (jsLt h (Num 0) \<or> jsGt h (Num 23))" "\<not> (jsLt mi (Num 0) \<or> jsGt mi (Num 59))"
    "\<not> (jsLt s (Num 0) \<or> jsGt s (Num 59))"
    using inside_passes by blast+
  have eq: "dateToUnixTime H y mo d h mi s tz ms =
       (if tz = ''Z'' \<or> offsetPattern tz then handleUtcOffset H y mo d h mi s tz ms
        else handleIanaTimezone H y mo d h mi s tz ms)"
    unfolding dateToUnixTime_def using p by (simp only: if_False)
  have "k = InvalidDate \<or> k = InvalidTimezone"
    if "dateToUnixTime H y mo d h mi s tz ms = Inl (k, msg)" for k msg
    using that handleUtcOffset_error handleIanaTimezone_error unfolding eq
    by (auto split: if_splits)
  then show "dateToUnixTime H y mo d h mi s tz ms =
       (if tz = ''Z'' \<or> offsetPattern tz then handleUtcOffset H y mo d h mi s tz ms
        else handleIanaTimezone H y mo d h mi s tz ms) \<and>
     (\<forall>k msg. dateToUnixTime H y mo d h mi s tz ms = Inl (k, msg) \<longrightarrow>
        k \<noteq> InvalidMonth \<and> k \<noteq> InvalidDay \<and> k \<noteq> InvalidHour \<and> k \<noteq> InvalidMinute \<and>
        k \<noteq> InvalidSecond)"
    using eq by auto
qed

theorem C10_no_integrality_check_witness:
  "insideOrUnordered (Num (3 / 2)) 1 12 \<and> insideOrUnordered NaN 1 31 \<and>
   insideOrUnordered (Num (45 / 2)) 0 23 \<and> insideOrUnordered (Num 0) 0 59 \<and>
   insideOrUnordered NaN 0 59 \<and>
   dateToUnixTime sampleHost (Num 2024) (Num (3 / 2)) NaN (Num (45 / 2)) (Num 0) NaN ''UTC'' None =
     handleIanaTimezone sampleHost (Num 2024) (Num (3 / 2)) NaN (Num (45 / 2)) (Num 0) NaN ''UTC'' None \<and>
   dateToUnixTime sampleHost (Num 2024) (Num (3 / 2)) NaN (Num (45 / 2)) (Num 0) NaN ''Z'' None =
     handleUtcOffset sampleHost (Num 2024) (Num (3 / 2)) NaN (Num (45 / 2)) (Num 0) NaN ''Z'' None"
proof -
  have a: "insideOrUnordered (Num (3 / 2)) 1 12 \<and> insideOrUnordered NaN 1 31 \<and>
   insideOrUnordered (Num (45 / 2)) 0 23 \<and> insideOrUnordered (Num 0) 0 59 \<and>
   insideOrUnordered NaN 0 59"
    by (simp add: insideOrUnordered_def)
  have 1: "dateToUnixTime sampleHost (Num 2024) (Num (3 / 2)) NaN (Num (45 / 2)) (Num 0) NaN ''UTC'' None =
     handleIanaTimezone sampleHost (Num 2024) (Num (3 / 2)) NaN (Num (45 / 2)) (Num 0) NaN ''UTC'' None"
    using C10_no_integrality_check [where tz = "''UTC''" and H = sampleHost and y = "Num 2024"
        and ms = None, THEN mp, OF a, THEN conjunct1]
    by (simp add: offsetPattern_def)
  have 2: "dateToUnixTime sampleHost (Num 2024) (Num (3 / 2)) NaN (Num (45 / 2)) (Num 0) NaN ''Z'' None =
     handleUtcOffset sampleHost (Num 2024) (Num (3 / 2)) NaN (Num (45 / 2)) (Num 0) NaN ''Z'' None"
    using C10_no_integrality_check [where tz = "''Z''" and H = sampleHost and y = "Num 2024"
        and ms = None, THEN mp, OF a, THEN conjunct1]
    by simp
  from a 1 2 show ?thesis by blast
qed

text \<open>
  C4. \<^verbatim>\<open>dateToUnixTimeFromObject\<close> passes the seven required fields and leaves
  \<^verbatim>\<open>useMilliseconds\<close> out: with the flag set in the record it returns seconds where
  the positional call with the flag returns milliseconds.
\<close>

theorem C4_object_ignores_flag:
  "dateToUnixTimeFromObject H input =
     dateToUnixTime H (year input) (month input) (day input) (hour input) (minute input)
       (second input) (timezone input) None \<and>
   dateToUnixTimeFromObject H
     \<lparr>year = Num 2024, month = Num 1, day = Num 1, hour = Num 0, minute = Num 0, second = Num 0,
      timezone = ''Z'', useMilliseconds = Some True\<rparr> = Inr (Num 1704067200) \<and>
   dateToUnixTime H (Num 2024) (Num 1) (Num 1) (Num 0) (Num 0) (Num 0) ''Z'' (Some True) =
     Inr (Num 1704067200000)"
  by (simp add: dateToUnixTimeFromObject_def program_defs text_defs parse_defs calendar_defs)

text \<open>
  C1. A call with integer components inside their ranges and a designator \<^verbatim>\<open>Z\<close>,
  \<^verbatim>\<open>+HH:MM\<close> or \<^verbatim>\<open>-HH:MM\<close> of offset \<open>off\<close> minutes that succeeds returns the UTC
  reading of the components minus the offset, in milliseconds when the flag is set and in
  floored seconds otherwise. The composed text is read by the Date Time String Format, or
  the host has no reading of its own for it. The three calls of 12:30 UTC on 4 December
  2024 all return 1733315400.
\<close>

theorem C1_fixed_offset_instant:
  fixes y mo d h mi s off :: int
  shows
  "(1 \<le> mo \<and> mo \<le> 12 \<and> 1 \<le> d \<and> d \<le> 31 \<and> 0 \<le> h \<and> h \<le> 23 \<and> 0 \<le> mi \<and> mi \<le> 59 \<and>
    0 \<le> s \<and> s \<le> 59 \<and> \<bar>y\<bar> < 10 ^ 21 \<and> designatorOffset tz = Some off \<and>
    (isoFields (isoString H (Num (of_int y)) (Num (of_int mo)) (Num (of_int d)) (Num (of_int h))
                 (Num (of_int mi)) (Num (of_int s)) tz) = None \<longrightarrow>
     otherParse H (isoString H (Num (of_int y)) (Num (of_int mo)) (Num (of_int d))
                 (Num (of_int h)) (Num (of_int mi)) (Num (of_int s)) tz) = NaN) \<and>
    dateToUnixTime H (Num (of_int y)) (Num (of_int mo)) (Num (of_int d)) (Num (of_int h))
               (Num (of_int mi)) (Num (of_int s)) tz useMs = Inr r
    \<longrightarrow> r = Num (of_int (if orFalse useMs then utcMillis y mo d h mi s - off * msPerMinute
                            else (utcMillis y mo d h mi s - off * msPerMinute) div 1000))) \<and>
   dateToUnixTime H (Num 2024) (Num 12) (Num 4) (Num 12) (Num 30) (Num 0) ''Z'' None =
     Inr (Num 1733315400) \<and>
   dateToUnixTime H (Num 2024) (Num 12) (Num 4) (Num 18) (Num 0) (Num 0) ''+05:30'' None =
     Inr (Num 1733315400) \<and>
   dateToUnixTime H (Num 2024) (Num 12) (Num 4) (Num 7) (Num 30) (Num 0) ''-05:00'' None =
     Inr (Num 1733315400)"
proof (intro conjI impI)
  assume a: "1 \<le> mo \<and> mo \<le> 12 \<and> 1 \<le> d \<and> d \<le> 31 \<and> 0 \<le> h \<and> h \<le> 23 \<and> 0 \<le> mi \<and> mi \<le> 59 \<and>
    0 \<le> s \<and> s \<le> 59 \<and> \<bar>y\<bar> < 10 ^ 21 \<and> designatorOffset tz = Some off \<and>
    (isoFields (isoString H (Num (of_int y)) (Num (of_int mo)) (Num (of_int d)) (Num (of_int h))
                 (Num (of_int mi)) (Num (of_int s)) tz) = None \<longrightarrow>
     otherParse H (isoString H (Num (of_int y)) (Num (of_int mo)) (Num (of_int d))
                 (Num (of_int h)) (Num (of_int mi)) (Num (of_int s)) tz) = NaN) \<and>
    dateToUnixTime H (Num (of_int y)) (Num (of_int mo)) (Num (of_int d)) (Num (of_int h))
               (Num (of_int mi)) (Num (of_int s)) tz useMs = Inr r"
  show "r = Num (of_int (if orFalse useMs then utcMillis y mo d h mi s - off * msPerMinute
                            else (utcMillis y mo d h mi s - off * msPerMinute) div 1000))"
    by (rule offset_result [of mo d h mi s y tz off H useMs r]) (use a in blast)+
qed (rule example_Z example_plus example_minus)+

theorem C1_fixed_offset_instant_witness:
  "designatorOffset ''+05:30'' = Some 330 \<and>
   dateToUnixTime sampleHost (Num 2024) (Num 12) (Num 4) (Num 18) (Num 0) (Num 0) ''+05:30'' (Some True) =
     Inr (Num 1733315400000) \<and>
   Num 1733315400000 = Num (of_int (utcMillis 2024 12 4 18 0 0 - 330 * msPerMinute))"
proof -
  have r: "1 \<le> (12::int) \<and> (12::int) \<le> 12 \<and> 1 \<le> (4::int) \<and> (4::int) \<le> 31 \<and> 0 \<le> (18::int) \<and>
    (18::int) \<le> 23 \<and> 0 \<le> (0::int) \<and> (0::int) \<le> 59 \<and> 0 \<le> (0::int) \<and> (0::int) \<le> 59 \<and>
    \<bar>2024::int\<bar> < 10 ^ 21"
    by simp
  have des: "designatorOffset ''+05:30'' = Some 330"
    by (simp add: designatorOffset_def digitVal_def decimalDigits_def)
  have ext: "isoFields (isoString sampleHost (Num (of_int 2024)) (Num (of_int 12)) (Num (of_int 4))
                 (Num (of_int 18)) (Num (of_int 0)) (Num (of_int 0)) ''+05:30'') = None \<longrightarrow>
     otherParse sampleHost (isoString sampleHost (Num (of_int 2024)) (Num (of_int 12)) (Num (of_int 4))
                 (Num (of_int 18)) (Num (of_int 0)) (Num (of_int 0)) ''+05:30'') = NaN"
    by (simp add: sampleHost_def)
  have run: "dateToUnixTime sampleHost (Num (of_int 2024)) (Num (of_int 12)) (Num (of_int 4))
      (Num (of_int 18)) (Num (of_int 0)) (Num (of_int 0)) ''+05:30'' (Some True) = Inr (Num 1733315400000)"
    by (simp add: program_defs text_defs parse_defs calendar_defs sampleHost_def)
  have "Num 1733315400000 =
     Num (of_int (if orFalse (Some True) then utcMillis 2024 12 4 18 0 0 - 330 * msPerMinute
                  else (utcMillis 2024 12 4 18 0 0 - 330 * msPerMinute) div 1000))"
    using r des ext run
    by (intro C1_fixed_offset_instant [where H = sampleHost and tz = "''+05:30''",
               THEN conjunct1, rule_format]) blast
  then have "Num 1733315400000 = Num (of_int (utcMillis 2024 12 4 18 0 0 - 330 * msPerMinute))"
    by (simp only: orFalse_def option.case if_True)
  with des run show ?thesis by simp
qed



text \<open>
  C7. A day beyond the end of its month: where the host's Date.parse rolls such a day
  over into the next month, as V8 does, 30 February 2024 is read as 1 March and the call
  succeeds; only where the host rejects the text does the call fail with InvalidDate.
\<close>

theorem C7_day_overflow_on_host:
  "(dayOverflowRolls H \<longrightarrow>
      dateToUnixTime H (Num 2024) (Num 2) (Num 30) (Num 0) (Num 0) (Num 0) ''Z'' None =
        Inr (Num 1709251200)) \<and>
   (\<not> dayOverflowRolls H \<longrightarrow>
      dateToUnixTime H (Num 2024) (Num 2) (Num 30) (Num 0) (Num 0) (Num 0) ''Z'' None =
        Inl (InvalidDate, ''Invalid date: 2024-02-30T00:00:00Z''))"
  by (simp add: program_defs text_defs parse_defs calendar_defs)

theorem C7_day_overflow_on_host_witness:
  "dayOverflowRolls sampleHost \<and>
   dateToUnixTime sampleHost (Num 2024) (Num 2) (Num 30) (Num 0) (Num 0) (Num 0) ''Z'' None =
     Inr (Num 1709251200) \<and>
   \<not> dayOverflowRolls (sampleHost \<lparr>dayOverflowRolls := False\<rparr>) \<and>
   dateToUnixTime (sampleHost \<lparr>dayOverflowRolls := False\<rparr>) (Num 2024) (Num 2) (Num 30) (Num 0) (Num 0)
     (Num 0) ''Z'' None = Inl (InvalidDate, ''Invalid date: 2024-02-30T00:00:00Z'')"
proof -
  have 1: "dayOverflowRolls sampleHost" by (simp add: sampleHost_def)
  have 2: "\<not> dayOverflowRolls (sampleHost \<lparr>dayOverflowRolls := False\<rparr>)" by simp
  from 1 2
    C7_day_overflow_on_host [of sampleHost, THEN conjunct1, THEN mp, OF 1]
    C7_day_overflow_on_host [of "sampleHost \<lparr>dayOverflowRolls := False\<rparr>", THEN conjunct2, THEN mp, OF 2]
  show ?thesis by blast
qed







end
